theory Spec2Isabelle
  imports Main "HOL-Library.AList" "HOL-Library.Word"
begin

section \<open>Values and exceptions\<close>

text \<open>
  The client of the RSS reader API moves untyped JSON around: every \<^verbatim>\<open>from_dict\<close>
  takes the dictionary that \<^verbatim>\<open>response.json()\<close> produced, and the dataclass fields
  hold whatever value the dictionary had (the annotations are not checked at run time).
  A dictionary is an association list in insertion order, as Python iterates it; a
  Python dictionary has no key twice. A string is the list of the bytes of its UTF-8
  encoding (a lone surrogate, which a JSON escape can give, as its three bytes), so a
  character is one to four bytes; equality, concatenation, and search for ASCII text
  are those of the Python strings. A float is kept as its 64 IEEE bits; only its truth
  value is ever looked at.
\<close>

datatype json =
    JNull
  | JBool bool
  | JInt int
  | JFloat "64 word"
  | JStr string
  | JList "json list"
  | JObj "(string \<times> json) list"

type_synonym dict = "(string \<times> json) list"

text \<open>Python's truth value of a JSON value (\<^verbatim>\<open>if x\<close>, \<^verbatim>\<open>x or y\<close>, \<^verbatim>\<open>not x\<close>).\<close>

fun truthy :: "json \<Rightarrow> bool" where
  "truthy JNull = False"
| "truthy (JBool b) = b"
| "truthy (JInt i) = (i \<noteq> 0)"
| "truthy (JFloat w) = (push_bit 1 w \<noteq> 0)"
| "truthy (JStr s) = (s \<noteq> [])"
| "truthy (JList xs) = (xs \<noteq> [])"
| "truthy (JObj kv) = (kv \<noteq> [])"

text \<open>
  The response of the HTTP library: its status code and what \<^verbatim>\<open>response.json()\<close> does
  with the body. A body that is not JSON makes \<^verbatim>\<open>json()\<close> raise; the class of that
  exception depends on the installed \<^verbatim>\<open>requests\<close>: a plain \<^verbatim>\<open>ValueError\<close>, or (2.27 and
  later) a subclass of \<^verbatim>\<open>requests.exceptions.RequestException\<close>, here with its \<^verbatim>\<open>str(e)\<close>.
\<close>

datatype json_result = Json json | Decode_error_plain | Decode_error_requests string

record response =
  status_code :: int
  json_result :: json_result

text \<open>
  The exceptions that can leave the client. The first four are the classes of
  \<^verbatim>\<open>exceptions.py\<close> with their \<^verbatim>\<open>message\<close> (and \<^verbatim>\<open>status_code\<close>); \<^verbatim>\<open>HTTPError\<close> and
  \<^verbatim>\<open>RequestException\<close> are those of the HTTP library (the second stands for every
  class of it other than \<^verbatim>\<open>HTTPError\<close>, with its \<^verbatim>\<open>str(e)\<close>); the others are built in.
\<close>

datatype exn =
    RSSReaderException json
  | APIError int json
  | AuthenticationError json
  | ConnectionError json
  | HTTPError response
  | RequestException string
  | JSONDecodeError
  | ValueError string
  | IndexError
  | AttributeError
  | TypeError

text \<open>\<^verbatim>\<open>data.get(key, default)\<close> on a dictionary.\<close>

definition dict_get :: "dict \<Rightarrow> string \<Rightarrow> json \<Rightarrow> json" where
  "dict_get data key dflt = (case map_of data key of None \<Rightarrow> dflt | Some v \<Rightarrow> v)"

text \<open>
  \<^verbatim>\<open>x.get(key, default)\<close> on any JSON value: only a dictionary has the method, every
  other value raises \<^verbatim>\<open>AttributeError\<close>.
\<close>

fun py_get :: "json \<Rightarrow> string \<Rightarrow> json \<Rightarrow> exn + json" where
  "py_get (JObj kv) key dflt = Inr (dict_get kv key dflt)"
| "py_get _ key dflt = Inl AttributeError"

text \<open>Sequencing of calls that may raise: the first exception ends the evaluation.\<close>

definition bind_exn :: "exn + 'a \<Rightarrow> ('a \<Rightarrow> exn + 'b) \<Rightarrow> exn + 'b" where
  "bind_exn m f = (case m of Inl e \<Rightarrow> Inl e | Inr x \<Rightarrow> f x)"

section \<open>Strings\<close>

text \<open>\<^verbatim>\<open>str(n)\<close> of an integer: decimal digits, with a minus sign when negative.\<close>

fun str_nat :: "nat \<Rightarrow> string" where
  "str_nat n =
     (if n < 10 then [''0123456789'' ! n]
      else str_nat (n div 10) @ [''0123456789'' ! (n mod 10)])"

declare str_nat.simps [simp del]

definition str_int :: "int \<Rightarrow> string" where
  "str_int i = (if i < 0 then CHR ''-'' # str_nat (nat (- i)) else str_nat (nat i))"

text \<open>\<^verbatim>\<open>s.startswith(p)\<close>, and \<^verbatim>\<open>s.rstrip(chars)\<close> for ASCII characters \<open>chars\<close>.\<close>

definition startswith :: "string \<Rightarrow> string \<Rightarrow> bool" where
  "startswith s p = (take (length p) s = p)"

definition rstrip :: "string \<Rightarrow> string \<Rightarrow> string" where
  "rstrip s chars = rev (dropWhile (\<lambda>c. c \<in> set chars) (rev s))"

text \<open>
  \<^verbatim>\<open>s.split(sep)\<close> for a separator of one ASCII character: the pieces between the
  separators, at least one piece.
\<close>

fun py_split :: "char \<Rightarrow> string \<Rightarrow> string list" where
  "py_split sep [] = [[]]"
| "py_split sep (c # cs) =
     (if c = sep then [] # py_split sep cs
      else (case py_split sep cs of
              [] \<Rightarrow> [[c]]
            | w # ws \<Rightarrow> (c # w) # ws))"

text \<open>\<^verbatim>\<open>xs[i]\<close> for \<open>i \<ge> 0\<close>: \<^verbatim>\<open>IndexError\<close> out of range.\<close>

definition py_index :: "'a list \<Rightarrow> nat \<Rightarrow> exn + 'a" where
  "py_index xs i = (if i < length xs then Inr (xs ! i) else Inl IndexError)"

text \<open>
  The characters of a string: the pieces of its UTF-8 encoding, each as long as its
  first byte says, and the code point of a character.
\<close>

definition utf8_len :: "char \<Rightarrow> nat" where
  "utf8_len b =
     (if int (of_char b) < 192 then 1
      else if int (of_char b) < 224 then 2
      else if int (of_char b) < 240 then 3
      else 4)"

fun utf8_chars :: "string \<Rightarrow> string list" where
  "utf8_chars [] = []"
| "utf8_chars (b # bs) =
     (b # take (utf8_len b - 1) bs) # utf8_chars (drop (utf8_len b - 1) bs)"

definition code_point :: "string \<Rightarrow> int" where
  "code_point ch =
     (case ch of
        [] \<Rightarrow> 0
      | b # bs \<Rightarrow>
          foldl (\<lambda>a c. a * 64 + (int (of_char c) - 128))
            (if int (of_char b) < 192 then int (of_char b)
             else if int (of_char b) < 224 then int (of_char b) - 192
             else if int (of_char b) < 240 then int (of_char b) - 224
             else int (of_char b) - 240)
            bs)"

text \<open>
  What \<^verbatim>\<open>int\<close> takes from the interpreter and not from its argument: the limit on the
  number of digits (\<^verbatim>\<open>sys.get_int_max_str_digits()\<close>: 4300 unless configured, 0 for no
  limit, as in the versions that have none), and the decimal digit value of the
  characters from code point 127 on, as the Unicode database of the interpreter has it.
\<close>

record interpreter =
  max_str_digits :: int
  unicode_decimal :: "int \<Rightarrow> int option"

text \<open>
  \<^verbatim>\<open>int(s)\<close> of a string, base ten, as CPython computes it. First the string is made
  ASCII: a string that is ASCII already is left as it is; in any other string the
  characters below code point 127 are kept, white space becomes a blank, a decimal
  digit becomes its ASCII digit, and at the first character that is neither the
  string is cut after a question mark. Then the number is read: ASCII white space
  (the characters 9 to 13 and 32) is skipped at both ends, one sign is allowed, then
  decimal digits, with single underscores allowed between two digits, and nothing
  else. More digits than the limit of the interpreter are refused, once there are
  more than 640. Every failure is a \<^verbatim>\<open>ValueError\<close> (its text is shortened here).
\<close>

definition unicode_isspace :: "int \<Rightarrow> bool" where
  "unicode_isspace cp =
     (cp \<in> {133, 160, 5760, 8232, 8233, 8239, 8287, 12288} \<or> (8192 \<le> cp \<and> cp \<le> 8202))"

fun transform_chars :: "interpreter \<Rightarrow> string list \<Rightarrow> string" where
  "transform_chars py [] = []"
| "transform_chars py (ch # chs) =
     (if code_point ch < 127 then ch @ transform_chars py chs
      else if unicode_isspace (code_point ch) then CHR '' '' # transform_chars py chs
      else (case unicode_decimal py (code_point ch) of
              None \<Rightarrow> ''?''
            | Some d \<Rightarrow> (''0123456789'' ! nat d) # transform_chars py chs))"

definition transform_decimal_and_space :: "interpreter \<Rightarrow> string \<Rightarrow> string" where
  "transform_decimal_and_space py s =
     (if list_all (\<lambda>c. int (of_char c) < 128) s then s
      else transform_chars py (utf8_chars s))"

definition py_isspace :: "char \<Rightarrow> bool" where
  "py_isspace c = (int (of_char c) \<in> {9, 10, 11, 12, 13, 32})"

definition py_strip :: "string \<Rightarrow> string" where
  "py_strip s = rev (dropWhile py_isspace (rev (dropWhile py_isspace s)))"

definition is_digit :: "char \<Rightarrow> bool" where
  "is_digit c = (48 \<le> (of_char c :: nat) \<and> (of_char c :: nat) \<le> 57)"

definition digit_val :: "char \<Rightarrow> int" where
  "digit_val c = int (of_char c) - 48"

fun valid_digits :: "string \<Rightarrow> bool" where
  "valid_digits [] = False"
| "valid_digits [c] = is_digit c"
| "valid_digits (c # d # cs) =
     (is_digit c \<and> (if d = CHR ''_'' then valid_digits cs else valid_digits (d # cs)))"

definition py_digits :: "interpreter \<Rightarrow> string \<Rightarrow> exn + int" where
  "py_digits py ds =
     (let digits = filter (\<lambda>c. c \<noteq> CHR ''_'') ds;
          n = int (length digits)
      in if \<not> valid_digits ds
         then Inl (ValueError ''invalid literal for int() with base 10'')
         else if 640 < n \<and> 0 < max_str_digits py \<and> max_str_digits py < n
         then Inl (ValueError ''Exceeds the limit for integer string conversion'')
         else Inr (foldl (\<lambda>a c. 10 * a + digit_val c) 0 digits))"

definition py_int :: "interpreter \<Rightarrow> string \<Rightarrow> exn + int" where
  "py_int py s =
     (case py_strip (transform_decimal_and_space py s) of
        [] \<Rightarrow> Inl (ValueError ''invalid literal for int() with base 10'')
      | c # cs \<Rightarrow>
          if c = CHR ''-'' then map_sum id uminus (py_digits py cs)
          else if c = CHR ''+'' then py_digits py cs
          else py_digits py (c # cs))"

text \<open>
  \<^verbatim>\<open>s.replace(old, new)\<close>: the occurrences of \<open>old\<close> are found from the left, without
  overlap, and each is replaced; an empty \<open>old\<close> matches before every character and
  at the end.
\<close>

fun py_replace :: "string \<Rightarrow> string \<Rightarrow> string \<Rightarrow> string" where
  "py_replace s [] new = new @ concat (map (\<lambda>ch. ch @ new) (utf8_chars s))"
| "py_replace [] (p # ps) new = []"
| "py_replace (c # cs) (p # ps) new =
     (if take (Suc (length ps)) (c # cs) = p # ps
      then new @ py_replace (drop (length ps) cs) (p # ps) new
      else c # py_replace cs (p # ps) new)"

section \<open>The data model (\<^verbatim>\<open>models.py\<close>)\<close>



record Feed =
  Feed_id :: json
  Feed_title :: json
  Feed_site_url :: json
  Feed_feed_url :: json
  Feed_category :: json
  Feed_checked_at :: json
  Feed_disabled :: json
  Feed_parsing_error_count :: json
  Feed_entry_count :: json

fun Feed_from_dict :: "json \<Rightarrow> exn + Feed" where
  "Feed_from_dict (JObj data) = Inr \<lparr>
     Feed_id = dict_get data ''id'' JNull,
     Feed_title = dict_get data ''title'' JNull,
     Feed_site_url = dict_get data ''site_url'' JNull,
     Feed_feed_url = dict_get data ''feed_url'' JNull,
     Feed_category = dict_get data ''category'' JNull,
     Feed_checked_at = dict_get data ''checked_at'' JNull,
     Feed_disabled = dict_get data ''disabled'' (JBool False),
     Feed_parsing_error_count = dict_get data ''parsing_error_count'' (JInt 0),
     Feed_entry_count = dict_get data ''entry_count'' (JInt 0)\<rparr>"
| "Feed_from_dict _ = Inl AttributeError"

record Entry =
  Entry_id :: json
  Entry_feed_id :: json
  Entry_title :: json
  Entry_url :: json
  Entry_published_at :: json
  Entry_created_at :: json
  Entry_author :: json
  Entry_feed :: json
  Entry_content :: json
  Entry_media :: json

fun Entry_from_dict :: "json \<Rightarrow> exn + Entry" where
  "Entry_from_dict (JObj data) = Inr \<lparr>
     Entry_id = dict_get data ''id'' JNull,
     Entry_feed_id = dict_get data ''feed_id'' JNull,
     Entry_title = dict_get data ''title'' JNull,
     Entry_url = dict_get data ''url'' JNull,
     Entry_published_at = dict_get data ''published_at'' JNull,
     Entry_created_at = dict_get data ''created_at'' JNull,
     Entry_author = dict_get data ''author'' JNull,
     Entry_feed = dict_get data ''feed'' (JObj []),
     Entry_content = dict_get data ''content'' JNull,
     Entry_media = dict_get data ''media'' JNull\<rparr>"
| "Entry_from_dict _ = Inl AttributeError"

text \<open>
  \<^verbatim>\<open>Entry.published_datetime\<close>. The parser \<^verbatim>\<open>datetime.fromisoformat\<close> belongs to the
  standard library and differs between Python versions, so it is the parameter
  \<open>fromiso\<close>, from the string to the exception it raises or the time value it
  returns. The truth test comes first; after it, a value that is not a string has no
  \<^verbatim>\<open>replace\<close> method.
\<close>

definition published_datetime :: "(string \<Rightarrow> exn + 'dt) \<Rightarrow> Entry \<Rightarrow> exn + 'dt option" where
  "published_datetime fromiso self =
     (if \<not> truthy (Entry_published_at self) then Inr None
      else (case Entry_published_at self of
              JStr s \<Rightarrow> map_sum id Some (fromiso (py_replace s ''Z'' ''+00:00''))
            | JList xs \<Rightarrow> Inl AttributeError
            | JObj kv \<Rightarrow> Inl AttributeError
            | JBool b \<Rightarrow> Inl AttributeError
            | JInt i \<Rightarrow> Inl AttributeError
            | JFloat w \<Rightarrow> Inl AttributeError
            | JNull \<Rightarrow> Inl AttributeError))"

record Pagination =
  Pagination_page :: json
  Pagination_per_page :: json
  Pagination_total :: json
  Pagination_pages :: json
  Pagination_has_next :: json
  Pagination_has_prev :: json

fun Pagination_from_dict :: "json \<Rightarrow> exn + Pagination" where
  "Pagination_from_dict (JObj data) = Inr \<lparr>
     Pagination_page = dict_get data ''page'' (JInt 1),
     Pagination_per_page = dict_get data ''per_page'' (JInt 50),
     Pagination_total = dict_get data ''total'' (JInt 0),
     Pagination_pages = dict_get data ''pages'' (JInt 1),
     Pagination_has_next = dict_get data ''has_next'' (JBool False),
     Pagination_has_prev = dict_get data ''has_prev'' (JBool False)\<rparr>"
| "Pagination_from_dict _ = Inl AttributeError"




record TaskStatus =
  TaskStatus_feed_tasks :: "(int \<times> json) list"
  TaskStatus_all_feeds_running :: json

text \<open>
  \<^verbatim>\<open>TaskStatus.from_dict\<close> calls \<^verbatim>\<open>int\<close>, so it has the interpreter as a parameter.
  The body of the \<^verbatim>\<open>try\<close> in its loop:
  \<^verbatim>\<open>feed_id = int(key.split('_')[1])\<close>, then \<^verbatim>\<open>feed_tasks[feed_id] = task.get('running', False)\<close>.
  The assignment is \<open>AList.update\<close>: a new key goes to the end, a known key keeps
  its place.
\<close>

definition feed_task_body ::
  "interpreter \<Rightarrow> string \<Rightarrow> json \<Rightarrow> (int \<times> json) list \<Rightarrow> exn + (int \<times> json) list" where
  "feed_task_body py key task feed_tasks =
     bind_exn (py_index (py_split CHR ''_'' key) 1) (\<lambda>segment.
     bind_exn (py_int py segment) (\<lambda>feed_id.
     bind_exn (py_get task ''running'' (JBool False)) (\<lambda>running.
     Inr (AList.update feed_id running feed_tasks))))"

text \<open>
  The loop over \<^verbatim>\<open>data.items()\<close>, with the two local variables as state.
  \<^verbatim>\<open>except (IndexError, ValueError): pass\<close> goes on with the next item; any other
  exception of the body (the \<^verbatim>\<open>AttributeError\<close> of a task that is not a dictionary)
  is not caught, nor is the one of the \<^verbatim>\<open>all_feeds\<close> branch.
\<close>

fun task_loop ::
  "interpreter \<Rightarrow> dict \<Rightarrow> (int \<times> json) list \<Rightarrow> json \<Rightarrow> exn + (int \<times> json) list \<times> json" where
  "task_loop py [] feed_tasks all_feeds_running = Inr (feed_tasks, all_feeds_running)"
| "task_loop py ((key, task) # items) feed_tasks all_feeds_running =
     (if key = ''all_feeds'' then
        (case py_get task ''running'' (JBool False) of
           Inl e \<Rightarrow> Inl e
         | Inr running \<Rightarrow> task_loop py items feed_tasks running)
      else if startswith key ''feed_'' then
        (case feed_task_body py key task feed_tasks of
           Inl IndexError \<Rightarrow> task_loop py items feed_tasks all_feeds_running
         | Inl (ValueError m) \<Rightarrow> task_loop py items feed_tasks all_feeds_running
         | Inl e \<Rightarrow> Inl e
         | Inr feed_tasks' \<Rightarrow> task_loop py items feed_tasks' all_feeds_running)
      else task_loop py items feed_tasks all_feeds_running)"

fun TaskStatus_from_dict :: "interpreter \<Rightarrow> json \<Rightarrow> exn + TaskStatus" where
  "TaskStatus_from_dict py (JObj data) =
     (case task_loop py data [] (JBool False) of
        Inl e \<Rightarrow> Inl e
      | Inr (feed_tasks, all_feeds_running) \<Rightarrow>
          Inr \<lparr>TaskStatus_feed_tasks = feed_tasks,
               TaskStatus_all_feeds_running = all_feeds_running\<rparr>)"
| "TaskStatus_from_dict py _ = Inl AttributeError"

section \<open>The exceptions (\<^verbatim>\<open>exceptions.py\<close>)\<close>

text \<open>
  \<^verbatim>\<open>APIError.__init__\<close> keeps the message it is given unless that is falsy
  (\<^verbatim>\<open>message or f"API Error (Status code: {status_code})"\<close>); the other classes keep
  the message as it is.
\<close>

definition new_APIError :: "int \<Rightarrow> json \<Rightarrow> exn" where
  "new_APIError status message =
     APIError status
       (if truthy message then message
        else JStr (''API Error (Status code: '' @ str_int status @ '')''))"

section \<open>The request executor (\<^verbatim>\<open>client.py\<close>)\<close>

record RSSClient =
  RSSClient_base_url :: string
  RSSClient_api_url :: string
  RSSClient_api_key :: string
  RSSClient_headers :: "(string \<times> string) list"

definition RSSClient_init :: "string \<Rightarrow> string \<Rightarrow> RSSClient" where
  "RSSClient_init base_url api_key = \<lparr>
     RSSClient_base_url = rstrip base_url ''/'',
     RSSClient_api_url = rstrip base_url ''/'' @ ''/api'',
     RSSClient_api_key = api_key,
     RSSClient_headers = [(''X-API-Key'', api_key), (''Content-Type'', ''application/json'')]\<rparr>"

text \<open>
  One call of the HTTP library: \<^verbatim>\<open>requests.get(url, headers=, params=)\<close>,
  \<^verbatim>\<open>requests.post(url, headers=, json=)\<close>, \<^verbatim>\<open>requests.put(url, headers=, json=)\<close> or
  \<^verbatim>\<open>requests.delete(url, headers=)\<close>. The network is a function \<open>send\<close> from the call
  to the exception it raises or the response it returns, and the executor returns,
  beside its own outcome, the list of the calls it made.
\<close>

record request =
  request_method :: string
  request_url :: string
  request_headers :: "(string \<times> string) list"
  request_params :: "(string \<times> int) list option"
  request_json :: "dict option"

type_synonym network = "request \<Rightarrow> exn + response"

text \<open>\<^verbatim>\<open>response.raise_for_status()\<close> of the HTTP library: statuses 400 to 599 raise.\<close>

definition raise_for_status :: "response \<Rightarrow> exn + unit" where
  "raise_for_status r =
     (if 400 \<le> status_code r \<and> status_code r < 600 then Inl (HTTPError r) else Inr ())"

definition response_json :: "response \<Rightarrow> exn + json" where
  "response_json r =
     (case json_result r of
        Json v \<Rightarrow> Inr v
      | Decode_error_plain \<Rightarrow> Inl JSONDecodeError
      | Decode_error_requests m \<Rightarrow> Inl (RequestException m))"

text \<open>
  The message of an error response:
  \<^verbatim>\<open>try: error_data = e.response.json(); if 'error' in error_data: error_msg = error_data['error']\<close>
  \<^verbatim>\<open>except: pass\<close>.
  Only a dictionary with the key replaces the message: a body that is not JSON raises
  in \<^verbatim>\<open>json()\<close>; on a number, a boolean or null the \<^verbatim>\<open>in\<close> raises; on a string or a
  list holding \<open>error\<close> the subscript raises; the bare \<^verbatim>\<open>except\<close> passes over all of
  them.
\<close>

definition error_message :: "json \<Rightarrow> response \<Rightarrow> json" where
  "error_message error_msg r =
     (case json_result r of
        Json (JObj error_data) \<Rightarrow>
          (case map_of error_data ''error'' of
             Some v \<Rightarrow> v
           | None \<Rightarrow> error_msg)
      | _ \<Rightarrow> error_msg)"

text \<open>
  The two \<^verbatim>\<open>except\<close> clauses of \<^verbatim>\<open>_make_request\<close>, as the exception that leaves the
  method for the one raised in the \<^verbatim>\<open>try\<close>; an exception of neither class passes
  through.
\<close>

fun handle_exception :: "exn \<Rightarrow> exn" where
  "handle_exception (HTTPError r) =
     (if status_code r = 401
      then AuthenticationError
             (error_message (JStr ''Invalid API key or authentication required'') r)
      else new_APIError (status_code r)
             (error_message (JStr (''HTTP Error: '' @ str_int (status_code r))) r))"
| "handle_exception (RequestException m) = ConnectionError (JStr (''Connection error: '' @ m))"
| "handle_exception e = e"

text \<open>The body of the \<^verbatim>\<open>try\<close>: the call for the method, then the status, then the body.\<close>

definition after_send :: "exn + response \<Rightarrow> exn + json" where
  "after_send sent =
     bind_exn sent (\<lambda>r. bind_exn (raise_for_status r) (\<lambda>_. response_json r))"

definition try_request ::
  "RSSClient \<Rightarrow> network \<Rightarrow> string \<Rightarrow> string \<Rightarrow> (string \<times> int) list option \<Rightarrow> dict option
     \<Rightarrow> (exn + json) \<times> request list" where
  "try_request self send url method params data =
     (if method = ''GET'' then
        (let req = \<lparr>request_method = ''GET'', request_url = url,
                    request_headers = RSSClient_headers self,
                    request_params = params, request_json = None\<rparr>
         in (after_send (send req), [req]))
      else if method = ''POST'' then
        (let req = \<lparr>request_method = ''POST'', request_url = url,
                    request_headers = RSSClient_headers self,
                    request_params = None, request_json = data\<rparr>
         in (after_send (send req), [req]))
      else if method = ''PUT'' then
        (let req = \<lparr>request_method = ''PUT'', request_url = url,
                    request_headers = RSSClient_headers self,
                    request_params = None, request_json = data\<rparr>
         in (after_send (send req), [req]))
      else if method = ''DELETE'' then
        (let req = \<lparr>request_method = ''DELETE'', request_url = url,
                    request_headers = RSSClient_headers self,
                    request_params = None, request_json = None\<rparr>
         in (after_send (send req), [req]))
      else (Inl (ValueError (''Unsupported HTTP method: '' @ method)), []))"

definition make_request ::
  "RSSClient \<Rightarrow> network \<Rightarrow> string \<Rightarrow> string \<Rightarrow> (string \<times> int) list option \<Rightarrow> dict option
     \<Rightarrow> (exn + json) \<times> request list" where
  "make_request self send endpoint method params data =
     (let url = RSSClient_api_url self @ ''/'' @ endpoint
      in (case try_request self send url method params data of
            (Inl e, calls) \<Rightarrow> (Inl (handle_exception e), calls)
          | (Inr v, calls) \<Rightarrow> (Inr v, calls)))"

section \<open>The listing operations (\<^verbatim>\<open>client.py\<close>)\<close>

text \<open>
  Iterating a JSON value (\<^verbatim>\<open>for item in data\<close>): a list gives its items, a dictionary
  its keys, a string its characters; nothing else can be iterated.
\<close>

fun py_iter :: "json \<Rightarrow> exn + json list" where
  "py_iter (JList xs) = Inr xs"
| "py_iter (JObj kv) = Inr (map (\<lambda>(k, v). JStr k) kv)"
| "py_iter (JStr s) = Inr (map JStr (utf8_chars s))"
| "py_iter _ = Inl TypeError"

fun map_exn :: "('a \<Rightarrow> exn + 'b) \<Rightarrow> 'a list \<Rightarrow> exn + 'b list" where
  "map_exn f [] = Inr []"
| "map_exn f (x # xs) =
     bind_exn (f x) (\<lambda>y. bind_exn (map_exn f xs) (\<lambda>ys. Inr (y # ys)))"

text \<open>The truth value of an \<^verbatim>\<open>Optional[int]\<close> argument: \<^verbatim>\<open>None\<close> and 0 are falsy.\<close>

fun truthy_arg :: "int option \<Rightarrow> bool" where
  "truthy_arg None = False"
| "truthy_arg (Some n) = (n \<noteq> 0)"

text \<open>
  \<^verbatim>\<open>get_feeds(category_id=None)\<close>: an argument that is left out is \<^verbatim>\<open>None\<close>.
\<close>

definition get_feeds_params :: "int option \<Rightarrow> (string \<times> int) list option" where
  "get_feeds_params category_id =
     (if truthy_arg category_id then Some [(''category_id'', the category_id)] else None)"

definition get_feeds ::
  "RSSClient \<Rightarrow> network \<Rightarrow> int option \<Rightarrow> (exn + Feed list) \<times> request list" where
  "get_feeds self send category_id =
     (let params = get_feeds_params category_id;
          (data, calls) = make_request self send ''feeds'' ''GET'' params None
      in (bind_exn data (\<lambda>d. bind_exn (py_iter d) (map_exn Feed_from_dict)), calls))"

text \<open>
  \<^verbatim>\<open>get_entries(page=1, per_page=50, category_id=None, feed_id=None)\<close>. For \<open>page\<close>
  and \<open>per_page\<close>, \<open>None\<close> stands for an argument that is left out, which takes the
  default of the signature. \<^verbatim>\<open>params[k] = v\<close> is \<open>AList.update\<close>.
\<close>

definition get_entries_params ::
  "int \<Rightarrow> int \<Rightarrow> int option \<Rightarrow> int option \<Rightarrow> (string \<times> int) list" where
  "get_entries_params page per_page category_id feed_id =
     (let params = [(''page'', page), (''per_page'', per_page)];
          params = (if truthy_arg category_id
                    then AList.update ''category_id'' (the category_id) params else params);
          params = (if truthy_arg feed_id
                    then AList.update ''feed_id'' (the feed_id) params else params)
      in params)"

definition get_entries ::
  "RSSClient \<Rightarrow> network \<Rightarrow> int option \<Rightarrow> int option \<Rightarrow> int option \<Rightarrow> int option
     \<Rightarrow> (exn + Entry list \<times> Pagination) \<times> request list" where
  "get_entries self send page_arg per_page_arg category_id feed_id =
     (let page = (case page_arg of None \<Rightarrow> 1 | Some p \<Rightarrow> p);
          per_page = (case per_page_arg of None \<Rightarrow> 50 | Some p \<Rightarrow> p);
          params = get_entries_params page per_page category_id feed_id;
          (data, calls) = make_request self send ''entries'' ''GET'' (Some params) None
      in (bind_exn data (\<lambda>d.
          bind_exn (py_get d ''entries'' (JList [])) (\<lambda>items.
          bind_exn (py_iter items) (\<lambda>items.
          bind_exn (map_exn Entry_from_dict items) (\<lambda>entries.
          bind_exn (py_get d ''pagination'' (JObj [])) (\<lambda>p.
          bind_exn (Pagination_from_dict p) (\<lambda>pagination.
          Inr (entries, pagination))))))), calls))"

section \<open>Notions used by the statements\<close>

text \<open>\<^verbatim>\<open>isinstance(e, RSSReaderException)\<close>: the root of \<^verbatim>\<open>exceptions.py\<close> and its three subclasses.\<close>

fun is_RSSReaderException :: "exn \<Rightarrow> bool" where
  "is_RSSReaderException (RSSReaderException m) = True"
| "is_RSSReaderException (APIError c m) = True"
| "is_RSSReaderException (AuthenticationError m) = True"
| "is_RSSReaderException (ConnectionError m) = True"
| "is_RSSReaderException _ = False"

text \<open>A network that answers every call with the same response.\<close>

definition respond_with :: "response \<Rightarrow> network" where
  "respond_with r req = Inr r"

text \<open>The value of a query parameter in an outgoing call, if the call has the parameter.\<close>

definition query_param :: "request \<Rightarrow> string \<Rightarrow> int option" where
  "query_param req key = (case request_params req of None \<Rightarrow> None | Some ps \<Rightarrow> map_of ps key)"

text \<open>
  A JSON value that is a dictionary.
\<close>

fun is_dict :: "json \<Rightarrow> bool" where
  "is_dict (JObj kv) = True"
| "is_dict _ = False"

text \<open>
  The feed id that the scan of \<^verbatim>\<open>TaskStatus.from_dict\<close> reads off a key: the key starts
  with \<open>feed_\<close>, and the text after this prefix, up to the next underscore or the end
  of the key, is accepted by \<^verbatim>\<open>int\<close>.
\<close>

definition feed_key_id :: "interpreter \<Rightarrow> string \<Rightarrow> int option" where
  "feed_key_id py key =
     (if take 5 key = ''feed_''
      then (case py_int py (takeWhile (\<lambda>c. c \<noteq> CHR ''_'') (drop 5 key)) of
              Inl e \<Rightarrow> None
            | Inr i \<Rightarrow> Some i)
      else None)"

text \<open>
  The pattern of the specification, \<open>feed_<integer>\<close> exactly: the prefix \<open>feed_\<close>, and
  all the rest of the key is an integer.
\<close>

definition is_feed_integer_key :: "interpreter \<Rightarrow> string \<Rightarrow> bool" where
  "is_feed_integer_key py key =
     (take 5 key = ''feed_''
      \<and> (case py_int py (drop 5 key) of Inl e \<Rightarrow> False | Inr i \<Rightarrow> True))"

text \<open>
  The nested \<open>running\<close> field of a task, \<^verbatim>\<open>False\<close> when the task has no such key; none
  when the task is not a dictionary.
\<close>

definition running_field :: "json \<Rightarrow> json option" where
  "running_field task =
     (case py_get task ''running'' (JBool False) of Inl e \<Rightarrow> None | Inr v \<Rightarrow> Some v)"

text \<open>
  The entry that \<^verbatim>\<open>Entry.from_dict\<close> makes of an object with the key \<open>published_at\<close>
  alone.
\<close>

definition entry_published :: "json \<Rightarrow> Entry" where
  "entry_published p = \<lparr>
     Entry_id = JNull, Entry_feed_id = JNull, Entry_title = JNull, Entry_url = JNull,
     Entry_published_at = p, Entry_created_at = JNull, Entry_author = JNull,
     Entry_feed = JObj [], Entry_content = JNull, Entry_media = JNull\<rparr>"

text \<open>
  The interpreter of the examples: CPython 3.11 as it is released, with the limit of
  4300 digits and the decimal digits of Unicode 14.0. Beyond ASCII these are 65 runs
  of the ten digits 0 to 9, each given here by the code point of its zero.
\<close>

definition decimal_runs :: "int list" where
  "decimal_runs =
    [1632, 1776, 1984, 2406, 2534, 2662, 2790, 2918, 3046, 3174, 3302, 3430, 3558,
     3664, 3792, 3872, 4160, 4240, 6112, 6160, 6470, 6608, 6784, 6800, 6992, 7088,
     7232, 7248, 42528, 43216, 43264, 43472, 43504, 43600, 44016, 65296, 66720,
     68912, 69734, 69872, 69942, 70096, 70384, 70736, 70864, 71248, 71360, 71472,
     71904, 72016, 72784, 73040, 73120, 92768, 92864, 93008, 120782, 120792, 120802,
     120812, 120822, 123200, 123632, 125264, 130032]"

definition unicode_14_decimal :: "int \<Rightarrow> int option" where
  "unicode_14_decimal cp =
     (case find (\<lambda>zero. zero \<le> cp \<and> cp < zero + 10) decimal_runs of
        None \<Rightarrow> None
      | Some zero \<Rightarrow> Some (cp - zero))"

definition cpython_3_11 :: interpreter where
  "cpython_3_11 = \<lparr>max_str_digits = 4300, unicode_decimal = unicode_14_decimal\<rparr>"

text \<open>
  A parser that hands back the string it is given, in the place of
  \<^verbatim>\<open>datetime.fromisoformat\<close>: with it, the result of \<^verbatim>\<open>Entry.published_datetime\<close> shows the
  string that the library is called with.
\<close>

definition echo_parser :: "string \<Rightarrow> exn + string" where
  "echo_parser s = Inr s"

section \<open>The request executor: error translation\<close>

lemma try_request_calls:
  "try_request self send url method params data = (res, calls) \<Longrightarrow> req \<in> set calls
   \<Longrightarrow> res = after_send (send req)"
  by (auto simp: try_request_def Let_def split: if_splits)

lemma after_send_error_status:
  "400 \<le> status_code r \<Longrightarrow> status_code r < 600 \<Longrightarrow> after_send (Inr r) = Inl (HTTPError r)"
  by (simp add: after_send_def bind_exn_def raise_for_status_def)

lemma make_request_error_status:
  assumes "make_request self send endpoint method params data = (res, calls)"
    and "req \<in> set calls" and "send req = Inr r"
    and "400 \<le> status_code r" and "status_code r < 600"
  shows "res = Inl (handle_exception (HTTPError r))"
proof -
  obtain res' where t: "try_request self send (RSSClient_api_url self @ ''/'' @ endpoint) method params data = (res', calls)"
    and r: "res = (case res' of Inl e \<Rightarrow> Inl (handle_exception e) | Inr v \<Rightarrow> Inr v)"
    using assms(1) by (auto simp: make_request_def Let_def split: prod.splits sum.splits)
  have "res' = Inl (HTTPError r)"
    using try_request_calls [OF t assms(2)] assms(3-5) by (simp add: after_send_error_status)
  with r show ?thesis by simp
qed

lemma error_message_field:
  "json_result r = Json (JObj d) \<Longrightarrow> map_of d ''error'' = Some v \<Longrightarrow> error_message m r = v"
  by (simp add: error_message_def)

lemma error_message_default:
  "\<not> (\<exists>d v. json_result r = Json (JObj d) \<and> map_of d ''error'' = Some v) \<Longrightarrow> error_message m r = m"
  by (auto simp: error_message_def split: json_result.splits json.splits option.splits)

text \<open>
  Claim C4. Whenever the network answers the call of the executor with status 401,
  the executor raises \<^verbatim>\<open>AuthenticationError\<close>; its message is the value of the \<open>error\<close>
  field when the body is a JSON object that has the field, and the fixed text
  \<open>Invalid API key or authentication required\<close> in every other case (a body that is
  not JSON, JSON that is not an object, an object without the field).
\<close>

theorem authentication_error_on_401:
  assumes "make_request self send endpoint method params data = (res, calls)"
    and "req \<in> set calls" and "send req = Inr r" and "status_code r = 401"
  shows "(\<forall>d v. json_result r = Json (JObj d) \<and> map_of d ''error'' = Some v
            \<longrightarrow> res = Inl (AuthenticationError v))
       \<and> (\<not> (\<exists>d v. json_result r = Json (JObj d) \<and> map_of d ''error'' = Some v)
            \<longrightarrow> res = Inl (AuthenticationError (JStr ''Invalid API key or authentication required'')))"
proof -
  have "res = Inl (handle_exception (HTTPError r))"
    using make_request_error_status [OF assms(1-3)] assms(4) by simp
  then have "res = Inl (AuthenticationError (error_message (JStr ''Invalid API key or authentication required'') r))"
    using assms(4) by simp
  then show ?thesis
    by (auto simp: error_message_field error_message_default)
qed

text \<open>
  The example of the specification: status 401 with the body \<^verbatim>\<open>{"error": "bad key"}\<close>
  raises \<^verbatim>\<open>AuthenticationError\<close> with the message \<open>bad key\<close>, after one \<^verbatim>\<open>GET\<close>.
\<close>

theorem authentication_error_on_401_witness:
  "make_request (RSSClient_init ''http://localhost:5000/'' ''secret'')
      (respond_with \<lparr>status_code = 401, json_result = Json (JObj [(''error'', JStr ''bad key'')])\<rparr>)
      ''feeds'' ''GET'' None None
   = (Inl (AuthenticationError (JStr ''bad key'')),
      [\<lparr>request_method = ''GET'', request_url = ''http://localhost:5000/api/feeds'',
        request_headers = [(''X-API-Key'', ''secret''), (''Content-Type'', ''application/json'')],
        request_params = None, request_json = None\<rparr>])"
proof -
  let ?r = "\<lparr>status_code = 401, json_result = Json (JObj [(''error'', JStr ''bad key'')])\<rparr>"
  let ?req = "\<lparr>request_method = ''GET'', request_url = ''http://localhost:5000/api/feeds'',
        request_headers = [(''X-API-Key'', ''secret''), (''Content-Type'', ''application/json'')],
        request_params = None, request_json = None\<rparr>"
  obtain res calls where m: "make_request (RSSClient_init ''http://localhost:5000/'' ''secret'')
      (respond_with ?r) ''feeds'' ''GET'' None None = (res, calls)"
    by (cases "make_request (RSSClient_init ''http://localhost:5000/'' ''secret'')
      (respond_with ?r) ''feeds'' ''GET'' None None")
  have c: "calls = [?req]"
    using m by (simp add: make_request_def try_request_def RSSClient_init_def rstrip_def Let_def split: prod.splits sum.splits)
  have "res = Inl (AuthenticationError (JStr ''bad key''))"
    using authentication_error_on_401 [OF m, of ?req ?r] c by (simp add: respond_with_def)
  with m c show ?thesis by simp
qed


text \<open>
  Claim C1, as the code has it. Whenever the network answers the call of the executor
  with a status from 400 to 599 other than 401, and the body is not a JSON object
  with an \<open>error\<close> field (it is not JSON at all, or JSON of another shape, or an object
  without the field), the executor raises \<^verbatim>\<open>APIError\<close> with that status code and the
  message \<open>HTTP Error: \<close> followed by the status code in decimal. The text
  \<open>API Error (Status code: ...)\<close> of \<^verbatim>\<open>APIError.__init__\<close> is not reached on this path:
  the message the executor passes is never empty.
\<close>

theorem api_error_fallback_message:
  assumes "make_request self send endpoint method params data = (res, calls)"
    and "req \<in> set calls" and "send req = Inr r"
    and "400 \<le> status_code r" and "status_code r < 600" and "status_code r \<noteq> 401"
    and "\<not> (\<exists>d v. json_result r = Json (JObj d) \<and> map_of d ''error'' = Some v)"
  shows "res = Inl (APIError (status_code r) (JStr (''HTTP Error: '' @ str_int (status_code r))))"
proof -
  have "res = Inl (handle_exception (HTTPError r))"
    using make_request_error_status [OF assms(1-5)] .
  also have "handle_exception (HTTPError r)
      = new_APIError (status_code r) (JStr (''HTTP Error: '' @ str_int (status_code r)))"
    using assms(6) by (simp add: error_message_default [OF assms(7)])
  also have "\<dots> = APIError (status_code r) (JStr (''HTTP Error: '' @ str_int (status_code r)))"
    by (simp add: new_APIError_def)
  finally show ?thesis .
qed

text \<open>
  Status 500 with a body that is not JSON: \<^verbatim>\<open>APIError\<close> with status code 500 and the
  message \<open>HTTP Error: 500\<close>.
\<close>

theorem api_error_fallback_message_witness:
  "fst (make_request (RSSClient_init ''http://localhost:5000'' ''secret'')
      (respond_with \<lparr>status_code = 500, json_result = Decode_error_plain\<rparr>)
      ''status'' ''GET'' None None)
   = Inl (APIError 500 (JStr ''HTTP Error: 500''))"
proof -
  let ?r = "\<lparr>status_code = 500, json_result = Decode_error_plain\<rparr>"
  let ?req = "\<lparr>request_method = ''GET'', request_url = ''http://localhost:5000/api/status'',
        request_headers = [(''X-API-Key'', ''secret''), (''Content-Type'', ''application/json'')],
        request_params = None, request_json = None\<rparr>"
  obtain res calls where m: "make_request (RSSClient_init ''http://localhost:5000'' ''secret'')
      (respond_with ?r) ''status'' ''GET'' None None = (res, calls)"
    by (cases "make_request (RSSClient_init ''http://localhost:5000'' ''secret'')
      (respond_with ?r) ''status'' ''GET'' None None")
  have c: "calls = [?req]"
    using m by (simp add: make_request_def try_request_def RSSClient_init_def rstrip_def Let_def split: prod.splits sum.splits)
  have s: "str_int 500 = ''500''"
    by code_simp
  have "res = Inl (APIError 500 (JStr ''HTTP Error: 500''))"
    using api_error_fallback_message [OF m, of ?req ?r] c s by (simp add: respond_with_def)
  with m show ?thesis by simp
qed

text \<open>
  Against claim C1 as stated: for status 500 with a body that is not JSON the message
  is not \<open>API Error (Status code: 500)\<close>; and a status outside 400 to 599 that is not
  2xx (here 304) raises no \<^verbatim>\<open>APIError\<close> at all: \<^verbatim>\<open>raise_for_status\<close> lets it pass and the
  failure is the one of decoding the body.
\<close>

theorem api_error_message_counterexample:
  "fst (make_request (RSSClient_init ''http://localhost:5000'' ''secret'')
      (respond_with \<lparr>status_code = 500, json_result = Decode_error_plain\<rparr>)
      ''status'' ''GET'' None None)
   \<noteq> Inl (APIError 500 (JStr ''API Error (Status code: 500)''))
   \<and> fst (make_request (RSSClient_init ''http://localhost:5000'' ''secret'')
      (respond_with \<lparr>status_code = 304, json_result = Decode_error_plain\<rparr>)
      ''status'' ''GET'' None None)
   = Inl JSONDecodeError"
  by code_simp

text \<open>
  Claim C3, as the code has it. A method other than \<open>GET\<close>, \<open>POST\<close>, \<open>PUT\<close> and
  \<open>DELETE\<close> raises the built-in \<^verbatim>\<open>ValueError\<close> with the message
  \<open>Unsupported HTTP method: \<close> and the method; neither \<^verbatim>\<open>except\<close> clause catches it, so
  it leaves the executor as it is, and it is not an instance of \<^verbatim>\<open>RSSReaderException\<close>
  (so neither the root of the taxonomy, nor \<^verbatim>\<open>ConnectionError\<close>, \<^verbatim>\<open>APIError\<close> or
  \<^verbatim>\<open>AuthenticationError\<close>). No call reaches the network.
\<close>

theorem unsupported_method_raises_ValueError:
  assumes "method \<notin> {''GET'', ''POST'', ''PUT'', ''DELETE''}"
  shows "\<exists>e. make_request self send endpoint method params data = (Inl e, [])
           \<and> e = ValueError (''Unsupported HTTP method: '' @ method)
           \<and> \<not> is_RSSReaderException e"
  using assms by (simp add: make_request_def try_request_def)

text \<open>
  The method \<open>PATCH\<close>: \<^verbatim>\<open>ValueError\<close>, and an empty list of calls.
\<close>

theorem unsupported_method_raises_ValueError_witness:
  "\<exists>e. make_request (RSSClient_init ''http://localhost:5000'' ''secret'')
          (respond_with \<lparr>status_code = 200, json_result = Json (JList [])\<rparr>)
          ''feeds'' ''PATCH'' None None = (Inl e, [])
       \<and> e = ValueError ''Unsupported HTTP method: PATCH''
       \<and> \<not> is_RSSReaderException e"
  using unsupported_method_raises_ValueError [of "''PATCH''"
      "RSSClient_init ''http://localhost:5000'' ''secret''"
      "respond_with \<lparr>status_code = 200, json_result = Json (JList [])\<rparr>" "''feeds''" None None]
  by simp

text \<open>
  Against claim C3 as stated: for the method \<open>PATCH\<close> the exception is a
  \<^verbatim>\<open>ValueError\<close>, which is not the root of the taxonomy nor any class under it.
\<close>

theorem unsupported_method_counterexample:
  "make_request (RSSClient_init ''http://localhost:5000'' ''secret'')
      (respond_with \<lparr>status_code = 200, json_result = Json (JList [])\<rparr>)
      ''feeds'' ''PATCH'' None None
     = (Inl (ValueError ''Unsupported HTTP method: PATCH''), [])
   \<and> \<not> is_RSSReaderException (ValueError ''Unsupported HTTP method: PATCH'')"
  by code_simp

section \<open>The listing operations: query parameters\<close>

lemma make_request_get_calls:
  "snd (make_request self send endpoint ''GET'' params data)
     = [\<lparr>request_method = ''GET'', request_url = RSSClient_api_url self @ ''/'' @ endpoint,
         request_headers = RSSClient_headers self,
         request_params = params, request_json = None\<rparr>]"
  by (simp add: make_request_def try_request_def Let_def split: prod.splits sum.splits)

lemma get_feeds_calls:
  "snd (get_feeds self send category_id)
     = [\<lparr>request_method = ''GET'', request_url = RSSClient_api_url self @ ''/feeds'',
         request_headers = RSSClient_headers self,
         request_params = get_feeds_params category_id, request_json = None\<rparr>]"
  using make_request_get_calls [of self send "''feeds''" "get_feeds_params category_id" None]
  by (simp add: get_feeds_def Let_def case_prod_beta)

lemma get_entries_calls:
  "snd (get_entries self send page_arg per_page_arg category_id feed_id)
     = [\<lparr>request_method = ''GET'', request_url = RSSClient_api_url self @ ''/entries'',
         request_headers = RSSClient_headers self,
         request_params = Some (get_entries_params
            (case page_arg of None \<Rightarrow> 1 | Some p \<Rightarrow> p)
            (case per_page_arg of None \<Rightarrow> 50 | Some p \<Rightarrow> p) category_id feed_id),
         request_json = None\<rparr>]"
  using make_request_get_calls [of self send "''entries''" "Some (get_entries_params
            (case page_arg of None \<Rightarrow> 1 | Some p \<Rightarrow> p)
            (case per_page_arg of None \<Rightarrow> 50 | Some p \<Rightarrow> p) category_id feed_id)" None]
  by (simp add: get_entries_def Let_def case_prod_beta)

lemma get_feeds_params_lookup:
  "(case get_feeds_params category_id of None \<Rightarrow> None | Some ps \<Rightarrow> map_of ps ''category_id'')
     = (if truthy_arg category_id then category_id else None)"
  by (cases category_id) (simp_all add: get_feeds_params_def)

lemma get_entries_params_lookup:
  "map_of (get_entries_params page per_page category_id feed_id) ''page'' = Some page"
  "map_of (get_entries_params page per_page category_id feed_id) ''per_page'' = Some per_page"
  "map_of (get_entries_params page per_page category_id feed_id) ''category_id''
     = (if truthy_arg category_id then category_id else None)"
  "map_of (get_entries_params page per_page category_id feed_id) ''feed_id''
     = (if truthy_arg feed_id then feed_id else None)"
  by (cases category_id; cases feed_id; simp add: get_entries_params_def Let_def update_conv')+

text \<open>
  Claim C7. \<^verbatim>\<open>get_feeds\<close> and \<^verbatim>\<open>get_entries\<close> make exactly one call, a \<open>GET\<close>. A filter
  argument (\<open>category_id\<close>, \<open>feed_id\<close>) that is \<^verbatim>\<open>None\<close> (also when left out) or 0 is
  not among the query parameters of that call; any other value is there, as given.
  \<^verbatim>\<open>get_entries\<close> always sends \<open>page\<close> and \<open>per_page\<close>, 1 and 50 when they are left
  out. This holds whatever the network answers.
\<close>

theorem listing_query_parameters:
  "(\<exists>req. snd (get_feeds self send category_id) = [req]
      \<and> request_method req = ''GET''
      \<and> query_param req ''category_id''
          = (case category_id of None \<Rightarrow> None | Some n \<Rightarrow> if n = 0 then None else Some n))
   \<and> (\<exists>req. snd (get_entries self send page_arg per_page_arg category_id feed_id) = [req]
      \<and> request_method req = ''GET''
      \<and> query_param req ''page'' = Some (case page_arg of None \<Rightarrow> 1 | Some p \<Rightarrow> p)
      \<and> query_param req ''per_page'' = Some (case per_page_arg of None \<Rightarrow> 50 | Some p \<Rightarrow> p)
      \<and> query_param req ''category_id''
          = (case category_id of None \<Rightarrow> None | Some n \<Rightarrow> if n = 0 then None else Some n)
      \<and> query_param req ''feed_id''
          = (case feed_id of None \<Rightarrow> None | Some n \<Rightarrow> if n = 0 then None else Some n))"
proof -
  have t: "(if truthy_arg a then a else None)
      = (case a of None \<Rightarrow> None | Some n \<Rightarrow> if n = 0 then None else Some n)" for a
    by (cases a) simp_all
  have "query_param \<lparr>request_method = ''GET'', request_url = RSSClient_api_url self @ ''/feeds'',
         request_headers = RSSClient_headers self,
         request_params = get_feeds_params category_id, request_json = None\<rparr> ''category_id''
     = (case category_id of None \<Rightarrow> None | Some n \<Rightarrow> if n = 0 then None else Some n)"
    using get_feeds_params_lookup [of category_id] by (simp add: query_param_def t)
  moreover have "query_param \<lparr>request_method = ''GET'', request_url = RSSClient_api_url self @ ''/entries'',
         request_headers = RSSClient_headers self,
         request_params = Some (get_entries_params
            (case page_arg of None \<Rightarrow> 1 | Some p \<Rightarrow> p)
            (case per_page_arg of None \<Rightarrow> 50 | Some p \<Rightarrow> p) category_id feed_id),
         request_json = None\<rparr> k
     = map_of (get_entries_params
            (case page_arg of None \<Rightarrow> 1 | Some p \<Rightarrow> p)
            (case per_page_arg of None \<Rightarrow> 50 | Some p \<Rightarrow> p) category_id feed_id) k" for k
    by (simp add: query_param_def)
  ultimately show ?thesis
    by (simp add: get_feeds_calls get_entries_calls get_entries_params_lookup t)
qed

text \<open>
  \<^verbatim>\<open>get_feeds(category_id=0)\<close> sends no \<open>category_id\<close>;
  \<^verbatim>\<open>get_entries(category_id=0, feed_id=3)\<close> sends \<open>page\<close> 1, \<open>per_page\<close> 50 and \<open>feed_id\<close> 3,
  and no \<open>category_id\<close>.
\<close>

theorem listing_query_parameters_witness:
  "(\<exists>req. snd (get_feeds (RSSClient_init ''http://localhost:5000'' ''secret'')
              (respond_with \<lparr>status_code = 200, json_result = Json (JList [])\<rparr>) (Some 0)) = [req]
      \<and> request_method req = ''GET''
      \<and> query_param req ''category_id'' = None)
   \<and> (\<exists>req. snd (get_entries (RSSClient_init ''http://localhost:5000'' ''secret'')
              (respond_with \<lparr>status_code = 200, json_result = Json (JList [])\<rparr>)
              None None (Some 0) (Some 3)) = [req]
      \<and> request_method req = ''GET''
      \<and> query_param req ''page'' = Some 1
      \<and> query_param req ''per_page'' = Some 50
      \<and> query_param req ''category_id'' = None
      \<and> query_param req ''feed_id'' = Some 3)"
  using listing_query_parameters [of "RSSClient_init ''http://localhost:5000'' ''secret''"
      "respond_with \<lparr>status_code = 200, json_result = Json (JList [])\<rparr>" "Some 0" None None "Some 3"]
  by simp


section \<open>\<^verbatim>\<open>TaskStatus.from_dict\<close>: the scan of the keys\<close>

lemma py_split_pieces:
  "py_split sep s = takeWhile (\<lambda>c. c \<noteq> sep) s
      # (case dropWhile (\<lambda>c. c \<noteq> sep) s of [] \<Rightarrow> [] | c # r \<Rightarrow> py_split sep r)"
  by (induction s) auto

lemma startswith_feed: "startswith key ''feed_'' \<longleftrightarrow> take 5 key = ''feed_''"
  by (simp add: startswith_def eval_nat_numeral)

lemma feed_segment:
  assumes "take 5 key = ''feed_''"
  shows "py_index (py_split CHR ''_'' key) (Suc 0) = Inr (takeWhile (\<lambda>c. c \<noteq> CHR ''_'') (drop 5 key))"
proof -
  have k: "key = ''feed_'' @ drop 5 key"
    using assms append_take_drop_id [of 5 key] by simp
  obtain w ws where p: "py_split CHR ''_'' (drop 5 key) = w # ws"
    and w: "w = takeWhile (\<lambda>c. c \<noteq> CHR ''_'') (drop 5 key)"
    using py_split_pieces [of "CHR ''_''" "drop 5 key"] by blast
  have "py_split CHR ''_'' (''feed_'' @ drop 5 key) = ''feed'' # w # ws"
    by (simp add: p)
  with k w show ?thesis
    by (simp add: py_index_def)
qed

lemma py_digits_error: "py_digits py s = Inl e \<Longrightarrow> \<exists>m. e = ValueError m"
  by (auto simp: py_digits_def Let_def split: if_splits)

lemma py_int_error: "py_int py s = Inl e \<Longrightarrow> \<exists>m. e = ValueError m"
  by (cases "py_strip (transform_decimal_and_space py s)")
     (auto simp: py_int_def map_sum_def split: if_splits sum.splits dest: py_digits_error)

lemma feed_task_body_cases:
  assumes "take 5 key = ''feed_''"
  shows "feed_task_body py key task feed_tasks =
     (case feed_key_id py key of
        None \<Rightarrow> Inl (projl (py_int py (takeWhile (\<lambda>c. c \<noteq> CHR ''_'') (drop 5 key))))
      | Some i \<Rightarrow> bind_exn (py_get task ''running'' (JBool False))
                   (\<lambda>running. Inr (AList.update i running feed_tasks)))"
  using assms
  by (simp add: feed_task_body_def feed_segment feed_key_id_def bind_exn_def split: sum.splits)

lemma find_append:
  "find P (xs @ ys) = (case find P xs of None \<Rightarrow> find P ys | Some x \<Rightarrow> Some x)"
  by (induction xs) auto

lemma feed_key_id_all_feeds: "feed_key_id py ''all_feeds'' = None"
  by (simp add: feed_key_id_def)

lemma task_loop_step:
  "task_loop py ((key, task) # items) feed_tasks all_feeds_running =
     (if key = ''all_feeds'' then
        (case running_field task of
           None \<Rightarrow> Inl AttributeError
         | Some v \<Rightarrow> task_loop py items feed_tasks v)
      else (case feed_key_id py key of
              None \<Rightarrow> task_loop py items feed_tasks all_feeds_running
            | Some i \<Rightarrow>
                (case running_field task of
                   None \<Rightarrow> Inl AttributeError
                 | Some v \<Rightarrow> task_loop py items (AList.update i v feed_tasks) all_feeds_running)))"
proof (cases "key = ''all_feeds''")
  case True
  then show ?thesis
    by (cases task) (simp_all add: running_field_def)
next
  case False
  show ?thesis
  proof (cases "take 5 key = ''feed_''")
    case no: False
    with False show ?thesis
      by (simp add: startswith_feed feed_key_id_def)
  next
    case yes: True
    show ?thesis
    proof (cases "feed_key_id py key")
      case None
      then obtain e where "py_int py (takeWhile (\<lambda>c. c \<noteq> CHR ''_'') (drop 5 key)) = Inl e"
        using yes by (auto simp: feed_key_id_def split: sum.splits)
      then obtain m where "py_int py (takeWhile (\<lambda>c. c \<noteq> CHR ''_'') (drop 5 key)) = Inl (ValueError m)"
        using py_int_error by blast
      with False yes None show ?thesis
        by (simp add: startswith_feed feed_task_body_cases)
    next
      case (Some i)
      with False yes show ?thesis
        by (cases task) (simp_all add: startswith_feed feed_task_body_cases running_field_def bind_exn_def)
    qed
  qed
qed

lemma task_loop_result:
  assumes "\<forall>(key, task) \<in> set items.
             (key = ''all_feeds'' \<or> feed_key_id py key \<noteq> None) \<longrightarrow> is_dict task"
  shows "\<exists>ft afr. task_loop py items feed_tasks all_feeds_running = Inr (ft, afr)
     \<and> Some afr = (case find (\<lambda>(key, task). key = ''all_feeds'') (rev items) of
                     None \<Rightarrow> Some all_feeds_running
                   | Some (key, task) \<Rightarrow> running_field task)
     \<and> (\<forall>i. map_of ft i = (case find (\<lambda>(key, task). feed_key_id py key = Some i) (rev items) of
                              None \<Rightarrow> map_of feed_tasks i
                            | Some (key, task) \<Rightarrow> running_field task))"
  using assms
proof (induction items arbitrary: feed_tasks all_feeds_running)
  case Nil
  then show ?case by simp
next
  case (Cons item items)
  obtain key task where item: "item = (key, task)" by (cases item)
  have rest: "\<forall>(key, task) \<in> set items.
             (key = ''all_feeds'' \<or> feed_key_id py key \<noteq> None) \<longrightarrow> is_dict task"
    using Cons.prems by simp
  have dict: "key = ''all_feeds'' \<or> feed_key_id py key \<noteq> None \<Longrightarrow> \<exists>kv. task = JObj kv"
    using Cons.prems item by (cases task) auto
  let ?A = "\<lambda>(key :: string, task :: json). key = ''all_feeds''"
  let ?F = "\<lambda>i (key, task :: json). feed_key_id py key = Some i"
  show ?case
  proof (cases "key = ''all_feeds''")
    case True
    then obtain kv where kv: "task = JObj kv" using dict by blast
    then have rf: "running_field task = Some (dict_get kv ''running'' (JBool False))"
      by (simp add: running_field_def)
    from Cons.IH [OF rest, of feed_tasks "dict_get kv ''running'' (JBool False)"]
    obtain ft afr where l: "task_loop py items feed_tasks (dict_get kv ''running'' (JBool False)) = Inr (ft, afr)"
      and a: "Some afr = (case find ?A (rev items) of
                            None \<Rightarrow> Some (dict_get kv ''running'' (JBool False))
                          | Some (key, task) \<Rightarrow> running_field task)"
      and f: "\<And>i. map_of ft i = (case find (?F i) (rev items) of
                              None \<Rightarrow> map_of feed_tasks i
                            | Some (key, task) \<Rightarrow> running_field task)"
      by blast
    have 1: "task_loop py (item # items) feed_tasks all_feeds_running = Inr (ft, afr)"
      using l by (simp add: item task_loop_step True rf del: task_loop.simps)
    have 2: "Some afr = (case find ?A (rev (item # items)) of
                            None \<Rightarrow> Some all_feeds_running
                          | Some (key, task) \<Rightarrow> running_field task)"
      using a by (simp add: item find_append True rf split: option.splits)
    have 3: "map_of ft i = (case find (?F i) (rev (item # items)) of
                              None \<Rightarrow> map_of feed_tasks i
                            | Some (key, task) \<Rightarrow> running_field task)" for i
      using f [of i] by (simp add: item find_append True feed_key_id_all_feeds split: option.splits)
    from 1 2 3 show ?thesis by blast
  next
    case False
    show ?thesis
    proof (cases "feed_key_id py key")
      case None
      from Cons.IH [OF rest, of feed_tasks all_feeds_running]
      obtain ft afr where l: "task_loop py items feed_tasks all_feeds_running = Inr (ft, afr)"
        and a: "Some afr = (case find ?A (rev items) of
                              None \<Rightarrow> Some all_feeds_running
                            | Some (key, task) \<Rightarrow> running_field task)"
        and f: "\<And>i. map_of ft i = (case find (?F i) (rev items) of
                                None \<Rightarrow> map_of feed_tasks i
                              | Some (key, task) \<Rightarrow> running_field task)"
        by blast
      have 1: "task_loop py (item # items) feed_tasks all_feeds_running = Inr (ft, afr)"
        using l by (simp add: item task_loop_step False None del: task_loop.simps)
      have 2: "Some afr = (case find ?A (rev (item # items)) of
                              None \<Rightarrow> Some all_feeds_running
                            | Some (key, task) \<Rightarrow> running_field task)"
        using a by (simp add: item find_append False split: option.splits)
      have 3: "map_of ft i = (case find (?F i) (rev (item # items)) of
                                None \<Rightarrow> map_of feed_tasks i
                              | Some (key, task) \<Rightarrow> running_field task)" for i
        using f [of i] by (simp add: item find_append None split: option.splits)
      from 1 2 3 show ?thesis by blast
    next
      case (Some j)
      then obtain kv where kv: "task = JObj kv" using dict by auto
      then have rf: "running_field task = Some (dict_get kv ''running'' (JBool False))"
        by (simp add: running_field_def)
      from Cons.IH [OF rest, of "AList.update j (dict_get kv ''running'' (JBool False)) feed_tasks" all_feeds_running]
      obtain ft afr where l: "task_loop py items (AList.update j (dict_get kv ''running'' (JBool False)) feed_tasks) all_feeds_running = Inr (ft, afr)"
        and a: "Some afr = (case find ?A (rev items) of
                              None \<Rightarrow> Some all_feeds_running
                            | Some (key, task) \<Rightarrow> running_field task)"
        and f: "\<And>i. map_of ft i = (case find (?F i) (rev items) of
                                None \<Rightarrow> map_of (AList.update j (dict_get kv ''running'' (JBool False)) feed_tasks) i
                              | Some (key, task) \<Rightarrow> running_field task)"
        by blast
      have 1: "task_loop py (item # items) feed_tasks all_feeds_running = Inr (ft, afr)"
        using l by (simp add: item task_loop_step False Some rf del: task_loop.simps)
      have 2: "Some afr = (case find ?A (rev (item # items)) of
                              None \<Rightarrow> Some all_feeds_running
                            | Some (key, task) \<Rightarrow> running_field task)"
        using a by (simp add: item find_append False split: option.splits)
      have 3: "map_of ft i = (case find (?F i) (rev (item # items)) of
                                None \<Rightarrow> map_of feed_tasks i
                              | Some (key, task) \<Rightarrow> running_field task)" for i
        using f [of i] by (auto simp: item find_append Some rf update_conv' split: option.splits)
      from 1 2 3 show ?thesis by blast
    qed
  qed
qed


lemma find_SomeD: "find P xs = Some x \<Longrightarrow> x \<in> set xs \<and> P x"
  by (induction xs) (auto split: if_splits)

lemma find_key_distinct:
  "distinct (map fst xs) \<Longrightarrow>
     find (\<lambda>(k, v). k = a) (rev xs) = map_option (Pair a) (map_of xs a)"
proof (induction xs)
  case Nil
  then show ?case by simp
next
  case (Cons x xs)
  obtain k v where x: "x = (k, v)" by (cases x)
  have ih: "find (\<lambda>(k, v). k = a) (rev xs) = map_option (Pair a) (map_of xs a)"
    using Cons by simp
  show ?case
  proof (cases "k = a")
    case True
    then have "map_of xs a = None"
      using Cons.prems x by (simp add: map_of_eq_None_iff)
    with ih True x show ?thesis by (simp add: find_append)
  next
    case False
    with ih x show ?thesis by (simp add: find_append split: option.splits)
  qed
qed

lemma task_loop_skips:
  "task_loop py (filter (\<lambda>(key, task). key = ''all_feeds'' \<or> feed_key_id py key \<noteq> None) items)
       feed_tasks all_feeds_running
     = task_loop py items feed_tasks all_feeds_running"
proof (induction items arbitrary: feed_tasks all_feeds_running)
  case Nil
  then show ?case by simp
next
  case (Cons item items)
  obtain key task where item: "item = (key, task)" by (cases item)
  show ?case
    unfolding item
    by (cases "feed_key_id py key"; cases "running_field task")
       (simp_all add: task_loop_step Cons.IH del: task_loop.simps not_None_eq)
qed

text \<open>
  Claim C2, as the code has it. Take an input object (a dictionary, no key twice) in
  which the value under \<open>all_feeds\<close>, and under every key that the scan reads a feed id
  off, is a dictionary. Then \<^verbatim>\<open>TaskStatus.from_dict\<close> returns, and
  \<^item> \<open>all_feeds_running\<close> is the nested \<open>running\<close> field of the key \<open>all_feeds\<close>, and
    \<^verbatim>\<open>False\<close> when the object has no such key;
  \<^item> \<open>feed_tasks\<close> has an entry for the integer \<open>i\<close> exactly when some key of the object
    starts with \<open>feed_\<close> and its text between this prefix and the next underscore (or
    the end of the key) is read by \<^verbatim>\<open>int\<close> as \<open>i\<close>; the entry holds the nested \<open>running\<close>
    field of the last such key;
  \<^item> all other keys are skipped, whatever their values: the result is that of the
    object without them.
\<close>

theorem TaskStatus_from_dict_scan:
  assumes "distinct (map fst data)"
    and "\<forall>(key, task) \<in> set data.
           (key = ''all_feeds'' \<or> feed_key_id py key \<noteq> None) \<longrightarrow> is_dict task"
  shows "\<exists>ts. TaskStatus_from_dict py (JObj data) = Inr ts
     \<and> Some (TaskStatus_all_feeds_running ts)
         = (case map_of data ''all_feeds'' of
              None \<Rightarrow> Some (JBool False)
            | Some task \<Rightarrow> running_field task)
     \<and> (\<forall>i. map_of (TaskStatus_feed_tasks ts) i
         = (case find (\<lambda>(key, task). feed_key_id py key = Some i) (rev data) of
              None \<Rightarrow> None
            | Some (key, task) \<Rightarrow> running_field task))
     \<and> (\<forall>i. i \<in> fst ` set (TaskStatus_feed_tasks ts)
         \<longleftrightarrow> (\<exists>key \<in> fst ` set data. feed_key_id py key = Some i))
     \<and> TaskStatus_from_dict py
           (JObj (filter (\<lambda>(key, task). key = ''all_feeds'' \<or> feed_key_id py key \<noteq> None) data))
         = Inr ts"
proof -
  have "\<exists>ft afr. task_loop py data [] (JBool False) = Inr (ft, afr)
     \<and> Some afr = (case find (\<lambda>(key, task). key = ''all_feeds'') (rev data) of
                     None \<Rightarrow> Some (JBool False)
                   | Some (key, task) \<Rightarrow> running_field task)
     \<and> (\<forall>i. map_of ft i = (case find (\<lambda>(key, task). feed_key_id py key = Some i) (rev data) of
                              None \<Rightarrow> None
                            | Some (key, task) \<Rightarrow> running_field task))"
    using task_loop_result [OF assms(2), where feed_tasks = "[]" and all_feeds_running = "JBool False"]
    by (simp cong: option.case_cong)
  then obtain ft afr where l: "task_loop py data [] (JBool False) = Inr (ft, afr)"
    and a: "Some afr = (case find (\<lambda>(key, task). key = ''all_feeds'') (rev data) of
                          None \<Rightarrow> Some (JBool False)
                        | Some (key, task) \<Rightarrow> running_field task)"
    and f: "\<And>i. map_of ft i = (case find (\<lambda>(key, task). feed_key_id py key = Some i) (rev data) of
                            None \<Rightarrow> None
                          | Some (key, task) \<Rightarrow> running_field task)"
    by blast
  let ?ts = "\<lparr>TaskStatus_feed_tasks = ft, TaskStatus_all_feeds_running = afr\<rparr>"
  have 1: "TaskStatus_from_dict py (JObj data) = Inr ?ts"
    using l by simp
  have 2: "Some afr = (case map_of data ''all_feeds'' of
                         None \<Rightarrow> Some (JBool False)
                       | Some task \<Rightarrow> running_field task)"
    using a by (simp add: find_key_distinct [OF assms(1)] split: option.splits)
  have 4: "i \<in> fst ` set ft \<longleftrightarrow> (\<exists>key \<in> fst ` set data. feed_key_id py key = Some i)" for i
  proof
    assume "i \<in> fst ` set ft"
    then have "map_of ft i \<noteq> None"
      by (simp add: map_of_eq_None_iff)
    then obtain key task where "find (\<lambda>(key, task). feed_key_id py key = Some i) (rev data) = Some (key, task)"
      using f [of i] by (auto split: option.splits)
    then have "(key, task) \<in> set data \<and> feed_key_id py key = Some i"
      by (auto dest: find_SomeD)
    then show "\<exists>key \<in> fst ` set data. feed_key_id py key = Some i"
      by force
  next
    assume "\<exists>key \<in> fst ` set data. feed_key_id py key = Some i"
    then have "find (\<lambda>(key, task). feed_key_id py key = Some i) (rev data) \<noteq> None"
      by (auto simp: find_None_iff)
    then obtain key task where fd: "find (\<lambda>(key, task). feed_key_id py key = Some i) (rev data) = Some (key, task)"
      by auto
    then have "(key, task) \<in> set data \<and> feed_key_id py key = Some i"
      by (auto dest: find_SomeD)
    then have "is_dict task"
      using assms(2) by auto
    then have "running_field task \<noteq> None"
      by (cases task) (simp_all add: running_field_def)
    then have "map_of ft i \<noteq> None"
      using f [of i] fd by simp
    then show "i \<in> fst ` set ft"
      by (simp add: map_of_eq_None_iff)
  qed
  have 5: "TaskStatus_from_dict py
           (JObj (filter (\<lambda>(key, task). key = ''all_feeds'' \<or> feed_key_id py key \<noteq> None) data))
         = Inr ?ts"
    using l by (simp add: task_loop_skips del: not_None_eq)
  show ?thesis
    using 1 2 f 4 5 by (intro exI [of _ ?ts]) (simp del: not_None_eq TaskStatus_from_dict.simps)
qed


text \<open>
  The example of the specification: \<open>all_feeds\<close> running, \<open>feed_7\<close> not running, and
  the malformed \<open>feed_bad\<close>, which is skipped.
\<close>

theorem TaskStatus_from_dict_scan_witness:
  "TaskStatus_from_dict cpython_3_11
       (JObj [(''all_feeds'', JObj [(''running'', JBool True)]),
              (''feed_7'', JObj [(''running'', JBool False)]),
              (''feed_bad'', JObj [(''running'', JBool True)])])
     = Inr \<lparr>TaskStatus_feed_tasks = [(7, JBool False)],
            TaskStatus_all_feeds_running = JBool True\<rparr>
   \<and> running_field (JObj [(''running'', JBool True)]) = Some (JBool True)"
proof -
  let ?data = "[(''all_feeds'', JObj [(''running'', JBool True)]),
                (''feed_7'', JObj [(''running'', JBool False)]),
                (''feed_bad'', JObj [(''running'', JBool True)])]"
  have d: "distinct (map fst ?data)"
    by simp
  have o: "\<forall>(key, task) \<in> set ?data.
             (key = ''all_feeds'' \<or> feed_key_id cpython_3_11 key \<noteq> None) \<longrightarrow> is_dict task"
    by simp
  have e: "TaskStatus_from_dict cpython_3_11 (JObj ?data)
     = Inr \<lparr>TaskStatus_feed_tasks = [(7, JBool False)],
            TaskStatus_all_feeds_running = JBool True\<rparr>"
    by code_simp
  from TaskStatus_from_dict_scan [OF d o]
  have "Some (JBool True) = (case map_of ?data ''all_feeds'' of
              None \<Rightarrow> Some (JBool False)
            | Some task \<Rightarrow> running_field task)"
    unfolding e by simp
  then have "running_field (JObj [(''running'', JBool True)]) = Some (JBool True)"
    by simp
  with e show ?thesis by simp
qed

text \<open>
  Against claim C2 as stated. The key \<open>feed_7_extra\<close> is not \<open>feed_<integer>\<close>, and yet
  it contributes the entry 7, since only the piece between the first two underscores
  is read. And not every input object is decoded: a task that is not a dictionary,
  under \<open>feed_7\<close> or under \<open>all_feeds\<close>, raises \<^verbatim>\<open>AttributeError\<close>.
\<close>

theorem TaskStatus_feed_pattern_counterexample:
  "TaskStatus_from_dict cpython_3_11 (JObj [(''feed_7_extra'', JObj [(''running'', JBool True)])])
     = Inr \<lparr>TaskStatus_feed_tasks = [(7, JBool True)],
            TaskStatus_all_feeds_running = JBool False\<rparr>
   \<and> \<not> is_feed_integer_key cpython_3_11 ''feed_7_extra''
   \<and> TaskStatus_from_dict cpython_3_11 (JObj [(''feed_7'', JNull)]) = Inl AttributeError
   \<and> TaskStatus_from_dict cpython_3_11 (JObj [(''all_feeds'', JBool True)]) = Inl AttributeError"
  by code_simp

section \<open>The decoders: absent keys and defaults\<close>

lemma dict_get_absent: "map_of data key = None \<Longrightarrow> dict_get data key dflt = dflt"
  by (simp add: dict_get_def)












text \<open>
  Claim C6. \<^verbatim>\<open>Pagination.from_dict({})\<close> is page 1, 50 per page, total 0, 1 page, no next
  and no previous page. For every input object, each field is its default when the
  key is absent from the object, and the value of the key when it is present.
\<close>

theorem Pagination_from_dict_defaults_exact:
  "Pagination_from_dict (JObj [])
     = Inr \<lparr>Pagination_page = JInt 1, Pagination_per_page = JInt 50, Pagination_total = JInt 0,
            Pagination_pages = JInt 1, Pagination_has_next = JBool False,
            Pagination_has_prev = JBool False\<rparr>
   \<and> (\<exists>p. Pagination_from_dict (JObj data) = Inr p
     \<and> Pagination_page p = (case map_of data ''page'' of None \<Rightarrow> JInt 1 | Some v \<Rightarrow> v)
     \<and> Pagination_per_page p = (case map_of data ''per_page'' of None \<Rightarrow> JInt 50 | Some v \<Rightarrow> v)
     \<and> Pagination_total p = (case map_of data ''total'' of None \<Rightarrow> JInt 0 | Some v \<Rightarrow> v)
     \<and> Pagination_pages p = (case map_of data ''pages'' of None \<Rightarrow> JInt 1 | Some v \<Rightarrow> v)
     \<and> Pagination_has_next p
         = (case map_of data ''has_next'' of None \<Rightarrow> JBool False | Some v \<Rightarrow> v)
     \<and> Pagination_has_prev p
         = (case map_of data ''has_prev'' of None \<Rightarrow> JBool False | Some v \<Rightarrow> v))"
  by (simp add: dict_get_def)

text \<open>
  An object with \<open>page\<close> and \<open>has_next\<close> only: these two are taken from the object, the
  other four are the defaults.
\<close>

theorem Pagination_from_dict_defaults_exact_witness:
  "Pagination_from_dict (JObj [(''page'', JInt 3), (''has_next'', JBool True)])
     = Inr \<lparr>Pagination_page = JInt 3, Pagination_per_page = JInt 50, Pagination_total = JInt 0,
            Pagination_pages = JInt 1, Pagination_has_next = JBool True,
            Pagination_has_prev = JBool False\<rparr>"
proof -
  from Pagination_from_dict_defaults_exact [of "[(''page'', JInt 3), (''has_next'', JBool True)]"]
  obtain p where "Pagination_from_dict (JObj [(''page'', JInt 3), (''has_next'', JBool True)]) = Inr p"
    and "Pagination_page p = JInt 3" and "Pagination_per_page p = JInt 50"
    and "Pagination_total p = JInt 0" and "Pagination_pages p = JInt 1"
    and "Pagination_has_next p = JBool True" and "Pagination_has_prev p = JBool False"
    by auto
  then show ?thesis
    by (cases p) simp
qed

text \<open>
  Claim C9. For every input object without the key \<open>feed\<close>, \<^verbatim>\<open>Entry.from_dict\<close> sets
  \<open>feed\<close> to the empty dictionary, not to \<^verbatim>\<open>None\<close>; \<open>published_at\<close>, \<open>author\<close>,
  \<open>content\<close> and \<open>media\<close> are \<^verbatim>\<open>None\<close> when their keys are absent.
\<close>

theorem Entry_from_dict_feed_default:
  assumes "map_of data ''feed'' = None"
  shows "\<exists>e. Entry_from_dict (JObj data) = Inr e
     \<and> Entry_feed e = JObj [] \<and> Entry_feed e \<noteq> JNull
     \<and> (map_of data ''published_at'' = None \<longrightarrow> Entry_published_at e = JNull)
     \<and> (map_of data ''author'' = None \<longrightarrow> Entry_author e = JNull)
     \<and> (map_of data ''content'' = None \<longrightarrow> Entry_content e = JNull)
     \<and> (map_of data ''media'' = None \<longrightarrow> Entry_media e = JNull)"
  using assms by (simp add: dict_get_absent)

text \<open>
  An entry object with \<open>id\<close> and \<open>author\<close> only.
\<close>

theorem Entry_from_dict_feed_default_witness:
  "\<exists>e. Entry_from_dict (JObj [(''id'', JInt 1), (''author'', JStr ''ann'')]) = Inr e
     \<and> Entry_id e = JInt 1 \<and> Entry_author e = JStr ''ann''
     \<and> Entry_feed e = JObj [] \<and> Entry_published_at e = JNull
     \<and> Entry_content e = JNull \<and> Entry_media e = JNull"
proof -
  have "map_of [(''id'', JInt 1), (''author'', JStr ''ann'')] ''feed'' = None"
    by simp
  from Entry_from_dict_feed_default [OF this]
  show ?thesis
    by (simp add: dict_get_def)
qed

section \<open>\<^verbatim>\<open>Entry.published_datetime\<close>\<close>

lemma py_replace_char:
  "py_replace s [z] new = concat (map (\<lambda>c. if c = z then new else [c]) s)"
  by (induction s) simp_all


lemma py_replace_Z_gone: "CHR ''Z'' \<notin> set (py_replace s ''Z'' ''+00:00'')"
  by (induction s) (simp_all add: py_replace_char)

lemma published_datetime_str:
  "Entry_published_at e = JStr s \<Longrightarrow> s \<noteq> [] \<Longrightarrow>
     published_datetime fromiso e = map_sum id Some (fromiso (py_replace s ''Z'' ''+00:00''))"
  by (simp add: published_datetime_def)






text \<open>
  Claim C10, as the code has it, for every parser \<open>fromiso\<close>. For every non-empty
  string in \<open>published_at\<close>, the result of \<^verbatim>\<open>Entry.published_datetime\<close> is the result of
  parsing the string in which every \<open>Z\<close>, wherever it stands, is replaced by \<open>+00:00\<close>;
  no \<open>Z\<close> is left in the string that is parsed.
\<close>

theorem published_datetime_global_replace:
  assumes "Entry_published_at e = JStr s" and "s \<noteq> []"
  shows "published_datetime fromiso e
           = map_sum id Some
               (fromiso (concat (map (\<lambda>c. if c = CHR ''Z'' then ''+00:00'' else [c]) s)))
       \<and> CHR ''Z'' \<notin> set (concat (map (\<lambda>c. if c = CHR ''Z'' then ''+00:00'' else [c]) s))"
  using published_datetime_str [OF assms, of fromiso] py_replace_Z_gone [of s]
  by (simp add: py_replace_char)

text \<open>
  A \<open>Z\<close> in the place of the separator is replaced as well: for
  \<open>2024-01-01Z10:30:00\<close> the library is called with \<open>2024-01-01+00:0010:30:00\<close>.
\<close>

theorem published_datetime_global_replace_witness:
  "published_datetime echo_parser (entry_published (JStr ''2024-01-01Z10:30:00''))
     = Inr (Some ''2024-01-01+00:0010:30:00'')
   \<and> CHR ''Z'' \<notin> set ''2024-01-01+00:0010:30:00''"
proof -
  have p: "Entry_published_at (entry_published (JStr ''2024-01-01Z10:30:00''))
             = JStr ''2024-01-01Z10:30:00''"
    by (simp add: entry_published_def)
  have n: "''2024-01-01Z10:30:00'' \<noteq> []"
    by simp
  from published_datetime_global_replace [OF p n, of echo_parser]
  show ?thesis
    by (simp add: echo_parser_def)
qed

text \<open>
  Against claim C10 as stated: for the empty string nothing is parsed and \<^verbatim>\<open>None\<close> is
  returned, which is not the result of parsing the substituted string. Whatever a
  parser returns or raises there, the result of parsing is never \<^verbatim>\<open>None\<close>
  (\<open>parse_result_not_None\<close>).
\<close>

theorem published_datetime_empty_string_counterexample:
  "published_datetime echo_parser (entry_published (JStr '''')) = Inr None
   \<and> published_datetime echo_parser (entry_published (JStr ''''))
       \<noteq> map_sum id Some (echo_parser (py_replace '''' ''Z'' ''+00:00''))"
  by (simp add: published_datetime_def entry_published_def echo_parser_def)

end
